theory Spec2Isabelle
  imports Main
begin

section \<open>JavaScript values and plain objects\<close>

text \<open>
  The values that travel in the variables of a GraphQL operation. \<open>JUndefined\<close> is a value
  of its own: a property can be present in an object and hold \<open>undefined\<close>, which is not the
  same object as one without the property.
\<close>

datatype jsvalue =
    JUndefined
  | JNull
  | JBool bool
  | JNum int
  | JStr string
  | JObj "(string \<times> jsvalue) list"

text \<open>
  A plain object: its own enumerable properties, in insertion order, one entry for each
  key. Inherited properties are left out: the reserved key of the control events is not a
  name any prototype defines. Numbers are only carried along, never computed with.
\<close>

type_synonym jsobject = "(string \<times> jsvalue) list"

text \<open>\<open>key in obj\<close>: the object has the property, whatever its value.\<close>

definition hasProperty :: "string \<Rightarrow> jsobject \<Rightarrow> bool" where
  "hasProperty k obj = (k \<in> fst ` set obj)"

text \<open>\<open>obj[key]\<close>: the value of the property, \<open>undefined\<close> when the object has none.\<close>

definition getProperty :: "jsobject \<Rightarrow> string \<Rightarrow> jsvalue" where
  "getProperty obj k = (case map_of obj k of None \<Rightarrow> JUndefined | Some v \<Rightarrow> v)"

text \<open>
  The rest element of the destructuring pattern \<open>{ [key]: x, ...rest }\<close>: a new object with
  every own property except \<open>key\<close>, in the order of the original.
\<close>

definition restProperties :: "string \<Rightarrow> jsobject \<Rightarrow> jsobject" where
  "restProperties k obj = filter (\<lambda>p. fst p \<noteq> k) obj"

section \<open>Documents and operations\<close>

text \<open>
  A definition node of a parsed document, with the two fields the link reads: \<open>kind\<close>, and
  \<open>operation\<close>, which only operation definitions have (\<open>None\<close> is \<open>undefined\<close>).
\<close>

record definition_node =
  kind :: string
  operation :: "string option"

type_synonym document = "definition_node list"

datatype error = TypeError | InvariantError

text \<open>
  The operation object that flows through the links. The type parameter is the
  representation of the variables object: the object itself where one operation is looked
  at alone, a reference into a heap where several operations live side by side. \<open>None\<close>
  is a \<open>variables\<close> field that holds \<open>undefined\<close> or \<open>null\<close>. \<open>operationContext\<close> is the
  metadata the stages of a chain attach to the operation.
\<close>

record 'v Operation =
  query :: document
  variables :: "'v option"
  operationName :: string
  extensions :: jsobject
  operationContext :: jsobject


section \<open>The control-events link\<close>

text \<open>
  The request handler of the link wrapped as \<open>controlMessages\<close>, that is the body of the
  observable it returns:

  \<^verbatim>\<open>
  const { variables: { [CONTROL_EVENTS_KEY]: controlEvents, ...variables } } = operation;
  if (typeof controlEvents !== "undefined") { operation.variables = variables; }
  observer.next({ [CONTROL_EVENTS_KEY]: controlEvents });
  \<close>

  The constant \<open>CONTROL_EVENTS_KEY\<close> is imported from a module outside this file and is a
  parameter here. Destructuring a \<open>variables\<close> field that is \<open>undefined\<close> or \<open>null\<close> throws a
  \<open>TypeError\<close>. The result is the operation as the handler leaves it and the list of the values
  handed to \<open>observer.next\<close>.
\<close>

definition controlEventsRequest ::
  "string \<Rightarrow> jsobject Operation \<Rightarrow> error + jsobject Operation \<times> jsobject list" where
  "controlEventsRequest CONTROL_EVENTS_KEY op =
     (case variables op of
        None \<Rightarrow> Inl TypeError
      | Some vars \<Rightarrow>
          (let controlEvents = getProperty vars CONTROL_EVENTS_KEY;
               rest = restProperties CONTROL_EVENTS_KEY vars;
               op' = (if controlEvents \<noteq> JUndefined
                      then op\<lparr>variables := Some rest\<rparr> else op)
           in Inr (op', [[(CONTROL_EVENTS_KEY, controlEvents)]])))"

section \<open>Operations in a heap\<close>

text \<open>
  Several operations are in flight on one link instance, and two operation objects may
  hold the same variables object. Here the operation objects and the variables objects
  live at addresses; an operation refers to its variables by address, and \<open>nextRef\<close> is
  the first address no object has been created at. The body of a handler runs to its end
  before anything else does, so a run of the handler is one step on the heap.
\<close>

type_synonym ref = nat

record heap =
  objects :: "ref \<Rightarrow> jsobject"
  operations :: "ref \<Rightarrow> ref Operation"
  nextRef :: ref

text \<open>
  The handler of the control-events link on the operation at address \<open>a\<close>. The rest
  element creates a new object; the assignment \<open>operation.variables = variables\<close> stores its
  address in the operation and writes into no other object.
\<close>

definition controlEventsRequestAt ::
  "string \<Rightarrow> ref \<Rightarrow> heap \<Rightarrow> error + heap \<times> jsobject list" where
  "controlEventsRequestAt CONTROL_EVENTS_KEY a h =
     (case variables (operations h a) of
        None \<Rightarrow> Inl TypeError
      | Some r \<Rightarrow>
          (let vars = objects h r;
               controlEvents = getProperty vars CONTROL_EVENTS_KEY;
               r' = nextRef h;
               h1 = h\<lparr>objects := (objects h)(r' := restProperties CONTROL_EVENTS_KEY vars),
                      nextRef := Suc r'\<rparr>;
               h2 = (if controlEvents \<noteq> JUndefined
                     then h1\<lparr>operations :=
                            (operations h1)(a := (operations h1 a)\<lparr>variables := Some r'\<rparr>)\<rparr>
                     else h1)
           in Inr (h2, [[(CONTROL_EVENTS_KEY, controlEvents)]])))"

text \<open>The heap after the handler ran on the operation at \<open>a\<close>; a handler that throws changes nothing.\<close>

definition heapAfter :: "string \<Rightarrow> ref \<Rightarrow> heap \<Rightarrow> heap" where
  "heapAfter CONTROL_EVENTS_KEY a h =
     (case controlEventsRequestAt CONTROL_EVENTS_KEY a h of
        Inl e \<Rightarrow> h
      | Inr (h', out) \<Rightarrow> h')"

text \<open>The operation at \<open>a\<close> as a stage sees it: its fields, with the variables object read from the heap.\<close>

definition operationAt :: "heap \<Rightarrow> ref \<Rightarrow> jsobject Operation" where
  "operationAt h a =
     \<lparr>query = query (operations h a),
      variables = map_option (objects h) (variables (operations h a)),
      operationName = operationName (operations h a),
      extensions = extensions (operations h a),
      operationContext = operationContext (operations h a)\<rparr>"

text \<open>The variables object of the operation at \<open>a\<close>, when it has one, is an object of the heap.\<close>

definition allocated :: "heap \<Rightarrow> ref \<Rightarrow> bool" where
  "allocated h a =
     (case variables (operations h a) of None \<Rightarrow> True | Some r \<Rightarrow> r < nextRef h)"

text \<open>
  What running the handler on the operation at \<open>a\<close> gives for that operation: the error, or
  the operation as it is afterwards and the metadata emitted.
\<close>

definition outcomeAt ::
  "string \<Rightarrow> ref \<Rightarrow> heap \<Rightarrow> error + jsobject Operation \<times> jsobject list" where
  "outcomeAt CONTROL_EVENTS_KEY a h =
     (case controlEventsRequestAt CONTROL_EVENTS_KEY a h of
        Inl e \<Rightarrow> Inl e
      | Inr (h', out) \<Rightarrow> Inr (operationAt h' a, out))"

section \<open>Links\<close>

text \<open>
  The structured configuration of the real-time link. Its type is declared outside this
  file; the factory reads the field \<open>url\<close> and hands the whole object on, so the other
  settings are a parameter.
\<close>

record 's AppSyncRealTimeSubscriptionConfig =
  url :: string
  realtimeSettings :: 's

text \<open>The first argument of the factory: \<open>typeof infoOrUrl === "string"\<close> tells the two apart.\<close>

datatype 's InfoOrUrl =
    Url string
  | Info "'s AppSyncRealTimeSubscriptionConfig"

text \<open>
  The links the factory builds, as the tree of constructor calls it makes. The classes and
  functions it calls are imported; each is a constructor here, with the arguments of the
  call:
  \<^item> \<open>SuppliedLink\<close>: a link the caller passed in, never looked into;
  \<^item> \<open>HttpLink uri\<close>: \<open>createHttpLink({ uri })\<close>;
  \<^item> \<open>RequestHandlerLink h\<close>: \<open>new ApolloLink(h)\<close>;
  \<^item> \<open>NonTerminatingLink name link\<close>: \<open>new NonTerminatingLink(name, { link })\<close>;
  \<^item> \<open>SubscriptionHandshakeLink key\<close>: \<open>new SubscriptionHandshakeLink(key)\<close>;
  \<^item> \<open>AppSyncRealTimeSubscriptionHandshakeLink cfg\<close>: the real-time link of a configuration;
  \<^item> \<open>LinkFrom links\<close>: \<open>ApolloLink.from(links)\<close>;
  \<^item> \<open>LinkSplit test left right\<close>: \<open>ApolloLink.split(test, left, right)\<close>.
\<close>

datatype ('l, 's) ApolloLink =
    SuppliedLink 'l
  | HttpLink string
  | RequestHandlerLink "jsobject Operation \<Rightarrow> error + jsobject Operation \<times> jsobject list"
  | NonTerminatingLink string "('l, 's) ApolloLink"
  | SubscriptionHandshakeLink string
  | AppSyncRealTimeSubscriptionHandshakeLink "'s AppSyncRealTimeSubscriptionConfig"
  | LinkFrom "('l, 's) ApolloLink list"
  | LinkSplit "jsobject Operation \<Rightarrow> error + bool" "('l, 's) ApolloLink" "('l, 's) ApolloLink"

text \<open>
  \<open>ApolloLink.split\<close>: the link it returns hands each operation to \<open>left\<close> when the test is
  true and to \<open>right\<close> otherwise; the test runs again for every operation, and what it
  throws propagates. \<open>routeOf\<close> is the link that receives the operation.
\<close>

fun routeOf :: "('l, 's) ApolloLink \<Rightarrow> jsobject Operation \<Rightarrow> error + ('l, 's) ApolloLink" where
  "routeOf (LinkSplit test left right) op =
     (case test op of Inl e \<Rightarrow> Inl e | Inr b \<Rightarrow> Inr (if b then left else right))"
| "routeOf l op = Inr l"

text \<open>The names of the non-terminating stages constructed anywhere in a link.\<close>

fun nonTerminatingNames :: "('l, 's) ApolloLink \<Rightarrow> string list" where
  "nonTerminatingNames (NonTerminatingLink name l) = name # nonTerminatingNames l"
| "nonTerminatingNames (LinkFrom ls) = concat (map nonTerminatingNames ls)"
| "nonTerminatingNames (LinkSplit test left right) =
     nonTerminatingNames left @ nonTerminatingNames right"
| "nonTerminatingNames l = []"

section \<open>The factory\<close>

text \<open>
  The test handed to \<open>ApolloLink.split\<close>:

  \<^verbatim>\<open>
  const { kind, operation: graphqlOperation } = getMainDefinition(query);
  return kind === "OperationDefinition" && graphqlOperation === "subscription";
  \<close>

  \<open>getMainDefinition\<close> belongs to the GraphQL client library and is a parameter; it may
  throw, and then so does the test.
\<close>

definition isSubscription ::
  "(document \<Rightarrow> error + definition_node) \<Rightarrow> jsobject Operation \<Rightarrow> error + bool" where
  "isSubscription getMainDef op =
     (case getMainDef (query op) of
        Inl e \<Rightarrow> Inl e
      | Inr d \<Rightarrow> Inr (kind d = ''OperationDefinition'' \<and> operation d = Some ''subscription''))"

text \<open>
  The two local variables of \<open>createSubscriptionHandshakeLink\<close> after its \<open>if\<close>:
  \<open>resultsFetcherLink\<close> first, \<open>subscriptionLinks\<close> second. A link object is always truthy,
  so \<open>theResultsFetcherLink || createHttpLink(...)\<close> builds the HTTP link exactly when no
  link was passed.
\<close>

definition factoryLinks ::
  "string \<Rightarrow> 's InfoOrUrl \<Rightarrow> 'l option \<Rightarrow> ('l, 's) ApolloLink \<times> ('l, 's) ApolloLink" where
  "factoryLinks CONTROL_EVENTS_KEY infoOrUrl theResultsFetcherLink =
     (case infoOrUrl of
        Url u \<Rightarrow>
          (let resultsFetcherLink =
                 (case theResultsFetcherLink of
                    Some l \<Rightarrow> SuppliedLink l
                  | None \<Rightarrow> HttpLink u);
               subscriptionLinks =
                 LinkFrom
                   [NonTerminatingLink ''controlMessages''
                      (RequestHandlerLink (controlEventsRequest CONTROL_EVENTS_KEY)),
                    NonTerminatingLink ''subsInfo'' resultsFetcherLink,
                    SubscriptionHandshakeLink ''subsInfo'']
           in (resultsFetcherLink, subscriptionLinks))
      | Info cfg \<Rightarrow>
          (let resultsFetcherLink =
                 (case theResultsFetcherLink of
                    Some l \<Rightarrow> SuppliedLink l
                  | None \<Rightarrow> HttpLink (url cfg));
               subscriptionLinks = AppSyncRealTimeSubscriptionHandshakeLink cfg
           in (resultsFetcherLink, subscriptionLinks)))"

definition resultsFetcherLinkOf ::
  "string \<Rightarrow> 's InfoOrUrl \<Rightarrow> 'l option \<Rightarrow> ('l, 's) ApolloLink" where
  "resultsFetcherLinkOf CONTROL_EVENTS_KEY infoOrUrl theResultsFetcherLink =
     fst (factoryLinks CONTROL_EVENTS_KEY infoOrUrl theResultsFetcherLink)"

definition subscriptionLinksOf ::
  "string \<Rightarrow> 's InfoOrUrl \<Rightarrow> 'l option \<Rightarrow> ('l, 's) ApolloLink" where
  "subscriptionLinksOf CONTROL_EVENTS_KEY infoOrUrl theResultsFetcherLink =
     snd (factoryLinks CONTROL_EVENTS_KEY infoOrUrl theResultsFetcherLink)"

definition createSubscriptionHandshakeLink ::
  "(document \<Rightarrow> error + definition_node) \<Rightarrow> string \<Rightarrow> 's InfoOrUrl \<Rightarrow> 'l option
     \<Rightarrow> ('l, 's) ApolloLink" where
  "createSubscriptionHandshakeLink getMainDef CONTROL_EVENTS_KEY infoOrUrl theResultsFetcherLink =
     (case factoryLinks CONTROL_EVENTS_KEY infoOrUrl theResultsFetcherLink of
        (resultsFetcherLink, subscriptionLinks) \<Rightarrow>
          LinkSplit (isSubscription getMainDef) subscriptionLinks resultsFetcherLink)"

section \<open>The document classifier\<close>

text \<open>
  Modelled from the spec: the document classifier \<open>mainDefinition(document)\<close>, that is
  \<open>getMainDefinition\<close> of the GraphQL client utilities, which is not among the sources of
  this repository. It yields the top-level operation definition of the document, a
  fragment definition when the document has no operation definition, and faults when it
  has neither. The theorems below hold for every classifier; this one evaluates them on
  literal documents.
\<close>

definition getMainDefinition :: "document \<Rightarrow> error + definition_node" where
  "getMainDefinition doc =
     (case filter (\<lambda>d. kind d = ''OperationDefinition'') doc of
        d # _ \<Rightarrow> Inr d
      | [] \<Rightarrow>
          (case filter (\<lambda>d. kind d = ''FragmentDefinition'') doc of
             d # _ \<Rightarrow> Inr d
           | [] \<Rightarrow> Inl InvariantError))"

section \<open>Sample operations\<close>

definition sampleQuery :: document where
  "sampleQuery = [\<lparr>kind = ''OperationDefinition'', operation = Some ''query''\<rparr>]"

definition sampleMutation :: document where
  "sampleMutation = [\<lparr>kind = ''OperationDefinition'', operation = Some ''mutation''\<rparr>]"

definition sampleSubscription :: document where
  "sampleSubscription =
     [\<lparr>kind = ''FragmentDefinition'', operation = None\<rparr>,
      \<lparr>kind = ''OperationDefinition'', operation = Some ''subscription''\<rparr>]"

definition sampleFragment :: document where
  "sampleFragment = [\<lparr>kind = ''FragmentDefinition'', operation = None\<rparr>]"

definition opWithQuery :: "document \<Rightarrow> jsobject Operation" where
  "opWithQuery doc =
     \<lparr>query = doc, variables = Some [], operationName = ''sample'',
      extensions = [], operationContext = []\<rparr>"

definition opWithVariables :: "jsobject \<Rightarrow> jsobject Operation" where
  "opWithVariables vars =
     \<lparr>query = sampleQuery, variables = Some vars, operationName = ''sample'',
      extensions = [], operationContext = []\<rparr>"

definition opWithoutVariables :: "jsobject Operation" where
  "opWithoutVariables =
     \<lparr>query = sampleQuery, variables = None, operationName = ''sample'',
      extensions = [], operationContext = []\<rparr>"

definition opRef :: "ref option \<Rightarrow> jsobject \<Rightarrow> ref Operation" where
  "opRef r meta =
     \<lparr>query = sampleSubscription, variables = r, operationName = ''sample'',
      extensions = [], operationContext = meta\<rparr>"

text \<open>
  Two operations, at addresses 0 and 1, that hold the same variables object
  \<open>{ a: 1, [CONTROL_EVENTS_KEY]: { x: true } }\<close>; the second carries metadata.
\<close>

definition sharedHeap :: heap where
  "sharedHeap =
     \<lparr>objects =
        (\<lambda>r. [])(0 := [(''a'', JNum 1), (''@@controlEvents'', JObj [(''x'', JBool True)])]),
      operations =
        (\<lambda>r. opRef None [])(0 := opRef (Some 0) [], 1 := opRef (Some 0) [(''m'', JNum 7)]),
      nextRef = 1\<rparr>"

section \<open>Properties of the control-events link\<close>

lemma map_of_restProperties:
  "map_of (restProperties k obj) = (map_of obj)(k := None)"
  by (induction obj) (auto simp: restProperties_def fun_eq_iff)

lemma restProperties_lacks_key:
  "\<not> hasProperty k (restProperties k obj)"
  by (auto simp: restProperties_def hasProperty_def)

lemma getProperty_absent:
  "\<not> hasProperty k obj \<Longrightarrow> getProperty obj k = JUndefined"
proof -
  assume "\<not> hasProperty k obj"
  then have "map_of obj k = None"
    by (simp add: hasProperty_def map_of_eq_None_iff)
  then show ?thesis
    by (simp add: getProperty_def)
qed

text \<open>
  C4. When the variables of the operation do not have the reserved key, the handler leaves
  the operation as it is and still emits one metadata object, in which the reserved key is
  present and holds \<open>undefined\<close>.
\<close>

theorem controlEvents_absent_key:
  assumes "variables op = Some vars" and "\<not> hasProperty K vars"
  shows "controlEventsRequest K op = Inr (op, [[(K, JUndefined)]])"
  using assms by (simp add: controlEventsRequest_def getProperty_absent)

theorem controlEvents_absent_key_witness:
  "variables (opWithVariables [(''a'', JNum 1)]) = Some [(''a'', JNum 1)]
   \<and> \<not> hasProperty ''@@controlEvents'' [(''a'', JNum 1)]
   \<and> controlEventsRequest ''@@controlEvents'' (opWithVariables [(''a'', JNum 1)])
       = Inr (opWithVariables [(''a'', JNum 1)], [[(''@@controlEvents'', JUndefined)]])"
proof -
  have v: "variables (opWithVariables [(''a'', JNum 1)]) = Some [(''a'', JNum 1)]"
    by (simp add: opWithVariables_def)
  have h: "\<not> hasProperty ''@@controlEvents'' [(''a'', JNum 1)]"
    by (simp add: hasProperty_def)
  from controlEvents_absent_key [OF v h] v h show ?thesis by simp
qed

text \<open>
  C2, as stated, fails where the reserved key is present and holds \<open>undefined\<close>: the guard
  \<open>typeof controlEvents !== "undefined"\<close> is false there, the operation keeps its variables
  and the reserved key stays in them.
\<close>

theorem controlEvents_undefined_value_stays:
  "hasProperty ''@@controlEvents'' [(''a'', JNum 1), (''@@controlEvents'', JUndefined)]
   \<and> controlEventsRequest ''@@controlEvents''
        (opWithVariables [(''a'', JNum 1), (''@@controlEvents'', JUndefined)])
       = Inr (opWithVariables [(''a'', JNum 1), (''@@controlEvents'', JUndefined)],
              [[(''@@controlEvents'', JUndefined)]])
   \<and> variables (opWithVariables [(''a'', JNum 1), (''@@controlEvents'', JUndefined)])
       \<noteq> Some [(''a'', JNum 1)]"
  by (simp add: controlEventsRequest_def opWithVariables_def getProperty_def hasProperty_def)

text \<open>
  C2 (amended). When the variables of the operation hold a value other than \<open>undefined\<close>
  under the reserved key, the handler replaces the variables by the original ones minus the
  reserved key, every other key with its value and in its place, and emits one metadata
  object that carries the extracted value under the reserved key.
\<close>

theorem controlEvents_extracts_value:
  assumes "variables op = Some vars"
    and "hasProperty K vars" and "getProperty vars K \<noteq> JUndefined"
  shows "controlEventsRequest K op
           = Inr (op\<lparr>variables := Some (restProperties K vars)\<rparr>, [[(K, getProperty vars K)]])
         \<and> map_of (restProperties K vars) = (map_of vars)(K := None)
         \<and> map fst (restProperties K vars) = removeAll K (map fst vars)"
proof -
  have run: "controlEventsRequest K op
      = Inr (op\<lparr>variables := Some (restProperties K vars)\<rparr>, [[(K, getProperty vars K)]])"
    using assms(1,3) by (simp add: controlEventsRequest_def)
  have keys: "map fst (restProperties K vars) = removeAll K (map fst vars)"
    by (induction vars) (auto simp: restProperties_def)
  from run keys show ?thesis
    by (simp add: map_of_restProperties)
qed

theorem controlEvents_extracts_value_witness:
  "variables (opWithVariables [(''a'', JNum 1), (''@@controlEvents'', JObj [(''x'', JBool True)])])
     = Some [(''a'', JNum 1), (''@@controlEvents'', JObj [(''x'', JBool True)])]
   \<and> hasProperty ''@@controlEvents''
        [(''a'', JNum 1), (''@@controlEvents'', JObj [(''x'', JBool True)])]
   \<and> getProperty [(''a'', JNum 1), (''@@controlEvents'', JObj [(''x'', JBool True)])]
        ''@@controlEvents'' \<noteq> JUndefined
   \<and> controlEventsRequest ''@@controlEvents''
        (opWithVariables [(''a'', JNum 1), (''@@controlEvents'', JObj [(''x'', JBool True)])])
       = Inr (opWithVariables [(''a'', JNum 1)],
              [[(''@@controlEvents'', JObj [(''x'', JBool True)])]])"
proof -
  let ?vars = "[(''a'', JNum 1), (''@@controlEvents'', JObj [(''x'', JBool True)])]"
  have v: "variables (opWithVariables ?vars) = Some ?vars"
    by (simp add: opWithVariables_def)
  have h: "hasProperty ''@@controlEvents'' ?vars"
    by (simp add: hasProperty_def)
  have d: "getProperty ?vars ''@@controlEvents'' \<noteq> JUndefined"
    by (simp add: getProperty_def)
  from controlEvents_extracts_value [OF v h d] v h d show ?thesis
    by (simp add: opWithVariables_def restProperties_def getProperty_def)
qed

text \<open>
  The handler applied by hand to an object without \<open>variables\<close> throws; no operation that
  \<open>execute\<close> builds is such an object.
\<close>

lemma controlEventsRequest_needs_variables:
  "controlEventsRequest K opWithoutVariables = Inl TypeError"
  by (simp add: controlEventsRequest_def opWithoutVariables_def)



text \<open>
  C5, as stated, fails where the reserved key holds \<open>undefined\<close>: the handler does not
  assign the cleaned variables, and the operation passed on still has the key.
\<close>

theorem controlEvents_undefined_key_remains:
  "controlEventsRequest ''@@controlEvents'' (opWithVariables [(''@@controlEvents'', JUndefined)])
     = Inr (opWithVariables [(''@@controlEvents'', JUndefined)],
            [[(''@@controlEvents'', JUndefined)]])
   \<and> variables (opWithVariables [(''@@controlEvents'', JUndefined)])
       = Some [(''@@controlEvents'', JUndefined)]
   \<and> hasProperty ''@@controlEvents'' [(''@@controlEvents'', JUndefined)]"
  by (simp add: controlEventsRequest_def opWithVariables_def getProperty_def hasProperty_def)

text \<open>
  C5 (amended). For every operation with a variables object in which the reserved key is
  absent or holds a value other than \<open>undefined\<close>, the handler returns, and the variables of
  the operation it leaves behind, which is the operation every later stage receives, do
  not have the reserved key. For every operation in whose variables the reserved key is
  stored with the value \<open>undefined\<close>, the handler leaves the operation as it was, its
  variables with the key included.
\<close>

theorem controlEvents_key_removed:
  assumes "variables op = Some vars"
  shows "(getProperty vars K \<noteq> JUndefined \<or> \<not> hasProperty K vars \<longrightarrow>
            (\<exists>op' out vars'. controlEventsRequest K op = Inr (op', out)
               \<and> variables op' = Some vars' \<and> \<not> hasProperty K vars'))
         \<and> (hasProperty K vars \<and> getProperty vars K = JUndefined \<longrightarrow>
            (\<exists>op' out. controlEventsRequest K op = Inr (op', out)
               \<and> op' = op \<and> variables op' = Some vars \<and> hasProperty K vars))"
proof (cases "getProperty vars K = JUndefined")
  case True
  note undef = this
  with assms have kept: "controlEventsRequest K op = Inr (op, [[(K, JUndefined)]])"
    by (simp add: controlEventsRequest_def)
  show ?thesis
  proof (cases "hasProperty K vars")
    case True
    with kept assms undef show ?thesis by simp
  next
    case False
    with kept assms undef show ?thesis by simp
  qed
next
  case False
  with assms have "controlEventsRequest K op
      = Inr (op\<lparr>variables := Some (restProperties K vars)\<rparr>, [[(K, getProperty vars K)]])"
    by (simp add: controlEventsRequest_def)
  with False show ?thesis
    by (simp add: restProperties_lacks_key)
qed

theorem controlEvents_key_removed_witness:
  "variables (opWithVariables [(''@@controlEvents'', JNull), (''b'', JNum 2)])
     = Some [(''@@controlEvents'', JNull), (''b'', JNum 2)]
   \<and> getProperty [(''@@controlEvents'', JNull), (''b'', JNum 2)] ''@@controlEvents''
       \<noteq> JUndefined
   \<and> (\<exists>op' out vars'.
         controlEventsRequest ''@@controlEvents''
           (opWithVariables [(''@@controlEvents'', JNull), (''b'', JNum 2)]) = Inr (op', out)
         \<and> variables op' = Some vars' \<and> \<not> hasProperty ''@@controlEvents'' vars')
   \<and> controlEventsRequest ''@@controlEvents''
         (opWithVariables [(''@@controlEvents'', JNull), (''b'', JNum 2)])
       = Inr (opWithVariables [(''b'', JNum 2)], [[(''@@controlEvents'', JNull)]])
   \<and> variables (opWithVariables [(''@@controlEvents'', JUndefined), (''c'', JNum 3)])
     = Some [(''@@controlEvents'', JUndefined), (''c'', JNum 3)]
   \<and> hasProperty ''@@controlEvents'' [(''@@controlEvents'', JUndefined), (''c'', JNum 3)]
   \<and> getProperty [(''@@controlEvents'', JUndefined), (''c'', JNum 3)] ''@@controlEvents''
       = JUndefined
   \<and> (\<exists>out.
         controlEventsRequest ''@@controlEvents''
           (opWithVariables [(''@@controlEvents'', JUndefined), (''c'', JNum 3)])
         = Inr (opWithVariables [(''@@controlEvents'', JUndefined), (''c'', JNum 3)], out))"
proof -
  let ?vars = "[(''@@controlEvents'', JNull), (''b'', JNum 2)]"
  let ?undef = "[(''@@controlEvents'', JUndefined), (''c'', JNum 3)]"
  have v: "variables (opWithVariables ?vars) = Some ?vars"
    by (simp add: opWithVariables_def)
  have d: "getProperty ?vars ''@@controlEvents'' \<noteq> JUndefined"
    by (simp add: getProperty_def)
  have r: "controlEventsRequest ''@@controlEvents'' (opWithVariables ?vars)
      = Inr (opWithVariables [(''b'', JNum 2)], [[(''@@controlEvents'', JNull)]])"
    by (simp add: controlEventsRequest_def opWithVariables_def getProperty_def
        restProperties_def)
  have u: "variables (opWithVariables ?undef) = Some ?undef"
    by (simp add: opWithVariables_def)
  have p: "hasProperty ''@@controlEvents'' ?undef"
    by (simp add: hasProperty_def)
  have e: "getProperty ?undef ''@@controlEvents'' = JUndefined"
    by (simp add: getProperty_def)
  from controlEvents_key_removed [OF v, of "''@@controlEvents''"]
    controlEvents_key_removed [OF u, of "''@@controlEvents''"] v d r u p e
  show ?thesis by auto
qed

section \<open>Independence of operations\<close>

text \<open>
  On an operation whose variables object is allocated, the handler on the heap does what
  the handler on the operation alone does.
\<close>

lemma outcomeAt_request:
  "allocated h a \<Longrightarrow> outcomeAt K a h = controlEventsRequest K (operationAt h a)"
  by (auto simp: outcomeAt_def controlEventsRequestAt_def controlEventsRequest_def
      operationAt_def allocated_def Let_def split: option.splits)

lemma heapAfter_other_operation:
  "a \<noteq> b \<Longrightarrow> operations (heapAfter K a h) b = operations h b"
  by (auto simp: heapAfter_def controlEventsRequestAt_def Let_def split: option.splits)

lemma heapAfter_allocated_objects:
  "r < nextRef h \<Longrightarrow> objects (heapAfter K a h) r = objects h r"
  by (auto simp: heapAfter_def controlEventsRequestAt_def Let_def split: option.splits)

lemma heapAfter_nextRef:
  "nextRef h \<le> nextRef (heapAfter K a h)"
  by (auto simp: heapAfter_def controlEventsRequestAt_def Let_def split: option.splits)

lemma heapAfter_operationAt:
  assumes "a \<noteq> b" and "allocated h b"
  shows "operationAt (heapAfter K a h) b = operationAt h b"
  using assms
  by (auto simp: operationAt_def allocated_def heapAfter_other_operation
      heapAfter_allocated_objects split: option.splits)

lemma heapAfter_allocated:
  assumes "a \<noteq> b" and "allocated h b"
  shows "allocated (heapAfter K a h) b"
  using assms heapAfter_nextRef [of h K a]
  by (auto simp: allocated_def heapAfter_other_operation split: option.splits)

text \<open>
  C9. For two distinct operation objects A and B, running the control-events handler on A
  leaves B as it was: B's own fields (the reference to its variables, its metadata), and the
  contents of its variables object, also when A holds the very same object. The outcome of
  the handler for B, the operation it leaves and the metadata it emits or the error it
  throws, is the same whether or not A was processed before.
\<close>

theorem controlEvents_operations_independent:
  assumes "a \<noteq> b" and "allocated h b"
  shows "operations (heapAfter K a h) b = operations h b
         \<and> operationAt (heapAfter K a h) b = operationAt h b
         \<and> outcomeAt K b (heapAfter K a h) = outcomeAt K b h"
proof -
  have "outcomeAt K b (heapAfter K a h)
      = controlEventsRequest K (operationAt (heapAfter K a h) b)"
    using assms by (simp add: outcomeAt_request heapAfter_allocated)
  also have "\<dots> = controlEventsRequest K (operationAt h b)"
    using assms by (simp add: heapAfter_operationAt)
  also have "\<dots> = outcomeAt K b h"
    using assms(2) by (simp add: outcomeAt_request)
  finally show ?thesis
    using assms by (simp add: heapAfter_other_operation heapAfter_operationAt)
qed

theorem controlEvents_operations_independent_witness:
  "(0::ref) \<noteq> 1 \<and> allocated sharedHeap 1
   \<and> variables (operations sharedHeap 0) = variables (operations sharedHeap 1)
   \<and> operationAt (heapAfter ''@@controlEvents'' 0 sharedHeap) 0
       = \<lparr>query = sampleSubscription, variables = Some [(''a'', JNum 1)],
          operationName = ''sample'', extensions = [], operationContext = []\<rparr>
   \<and> operationAt (heapAfter ''@@controlEvents'' 0 sharedHeap) 1
       = \<lparr>query = sampleSubscription,
          variables = Some [(''a'', JNum 1), (''@@controlEvents'', JObj [(''x'', JBool True)])],
          operationName = ''sample'', extensions = [], operationContext = [(''m'', JNum 7)]\<rparr>
   \<and> outcomeAt ''@@controlEvents'' 1 (heapAfter ''@@controlEvents'' 0 sharedHeap)
       = Inr (\<lparr>query = sampleSubscription, variables = Some [(''a'', JNum 1)],
               operationName = ''sample'', extensions = [],
               operationContext = [(''m'', JNum 7)]\<rparr>,
              [[(''@@controlEvents'', JObj [(''x'', JBool True)])]])"
proof -
  have d: "(0::ref) \<noteq> 1" by simp
  have al: "allocated sharedHeap 1"
    by (simp add: allocated_def sharedHeap_def opRef_def)
  have sh: "variables (operations sharedHeap 0) = variables (operations sharedHeap 1)"
    by (simp add: sharedHeap_def opRef_def)
  have a0: "operationAt (heapAfter ''@@controlEvents'' 0 sharedHeap) 0
      = \<lparr>query = sampleSubscription, variables = Some [(''a'', JNum 1)],
         operationName = ''sample'', extensions = [], operationContext = []\<rparr>"
    by (simp add: operationAt_def heapAfter_def controlEventsRequestAt_def sharedHeap_def
        opRef_def getProperty_def restProperties_def Let_def)
  have b0: "operationAt sharedHeap 1
      = \<lparr>query = sampleSubscription,
         variables = Some [(''a'', JNum 1), (''@@controlEvents'', JObj [(''x'', JBool True)])],
         operationName = ''sample'', extensions = [], operationContext = [(''m'', JNum 7)]\<rparr>"
    by (simp add: operationAt_def sharedHeap_def opRef_def)
  have b1: "outcomeAt ''@@controlEvents'' 1 sharedHeap
      = Inr (\<lparr>query = sampleSubscription, variables = Some [(''a'', JNum 1)],
              operationName = ''sample'', extensions = [],
              operationContext = [(''m'', JNum 7)]\<rparr>,
             [[(''@@controlEvents'', JObj [(''x'', JBool True)])]])"
    by (simp add: outcomeAt_def operationAt_def controlEventsRequestAt_def sharedHeap_def
        opRef_def getProperty_def restProperties_def Let_def)
  from controlEvents_operations_independent [OF d al, of "''@@controlEvents''"]
    d al sh a0 b0 b1
  show ?thesis by simp
qed

section \<open>Properties of the factory\<close>

lemma factoryLinks_split:
  "createSubscriptionHandshakeLink gmd K cfg rf
     = LinkSplit (isSubscription gmd) (subscriptionLinksOf K cfg rf)
         (resultsFetcherLinkOf K cfg rf)"
  by (simp add: createSubscriptionHandshakeLink_def subscriptionLinksOf_def
      resultsFetcherLinkOf_def split: prod.split)

lemma resultsFetcherLinkOf_Url:
  "resultsFetcherLinkOf K (Url u) rf
     = (case rf of Some l \<Rightarrow> SuppliedLink l | None \<Rightarrow> HttpLink u)"
  by (simp add: resultsFetcherLinkOf_def factoryLinks_def Let_def)

lemma resultsFetcherLinkOf_Info:
  "resultsFetcherLinkOf K (Info cfg) rf
     = (case rf of Some l \<Rightarrow> SuppliedLink l | None \<Rightarrow> HttpLink (url cfg))"
  by (simp add: resultsFetcherLinkOf_def factoryLinks_def Let_def)

lemma subscriptionLinksOf_Url:
  "subscriptionLinksOf K (Url u) rf
     = LinkFrom
         [NonTerminatingLink ''controlMessages'' (RequestHandlerLink (controlEventsRequest K)),
          NonTerminatingLink ''subsInfo'' (resultsFetcherLinkOf K (Url u) rf),
          SubscriptionHandshakeLink ''subsInfo'']"
  by (simp add: subscriptionLinksOf_def resultsFetcherLinkOf_def factoryLinks_def Let_def)

lemma subscriptionLinksOf_Info:
  "subscriptionLinksOf K (Info cfg) rf = AppSyncRealTimeSubscriptionHandshakeLink cfg"
  by (simp add: subscriptionLinksOf_def factoryLinks_def Let_def)

text \<open>
  C1. For every link the factory returns and every operation whose main definition is an
  operation definition: when its operation type is \<open>subscription\<close> the operation goes to the
  subscription sub-chain, and when it is any other type (\<open>query\<close>, \<open>mutation\<close>) it goes to
  the results-fetcher link.
\<close>

theorem subscription_routing:
  assumes "gmd (query op) = Inr d" and "kind d = ''OperationDefinition''"
  shows "(operation d = Some ''subscription'' \<longrightarrow>
            routeOf (createSubscriptionHandshakeLink gmd K cfg rf) op
              = Inr (subscriptionLinksOf K cfg rf))
         \<and> (operation d \<noteq> Some ''subscription'' \<longrightarrow>
            routeOf (createSubscriptionHandshakeLink gmd K cfg rf) op
              = Inr (resultsFetcherLinkOf K cfg rf))"
  using assms by (simp add: factoryLinks_split isSubscription_def)

theorem subscription_routing_witness:
  "getMainDefinition (query (opWithQuery sampleSubscription))
     = Inr \<lparr>kind = ''OperationDefinition'', operation = Some ''subscription''\<rparr>
   \<and> getMainDefinition (query (opWithQuery sampleQuery))
     = Inr \<lparr>kind = ''OperationDefinition'', operation = Some ''query''\<rparr>
   \<and> getMainDefinition (query (opWithQuery sampleMutation))
     = Inr \<lparr>kind = ''OperationDefinition'', operation = Some ''mutation''\<rparr>
   \<and> routeOf (createSubscriptionHandshakeLink getMainDefinition ''@@controlEvents''
                (Url ''https://example/graphql'') None :: (unit, unit) ApolloLink)
        (opWithQuery sampleSubscription)
       = Inr (LinkFrom
                [NonTerminatingLink ''controlMessages''
                   (RequestHandlerLink (controlEventsRequest ''@@controlEvents'')),
                 NonTerminatingLink ''subsInfo'' (HttpLink ''https://example/graphql''),
                 SubscriptionHandshakeLink ''subsInfo''])
   \<and> routeOf (createSubscriptionHandshakeLink getMainDefinition ''@@controlEvents''
                (Url ''https://example/graphql'') None :: (unit, unit) ApolloLink)
        (opWithQuery sampleQuery)
       = Inr (HttpLink ''https://example/graphql'')
   \<and> routeOf (createSubscriptionHandshakeLink getMainDefinition ''@@controlEvents''
                (Url ''https://example/graphql'') None :: (unit, unit) ApolloLink)
        (opWithQuery sampleMutation)
       = Inr (HttpLink ''https://example/graphql'')"
proof -
  let ?sub = "\<lparr>kind = ''OperationDefinition'', operation = Some ''subscription''\<rparr>"
  let ?qry = "\<lparr>kind = ''OperationDefinition'', operation = Some ''query''\<rparr>"
  let ?mut = "\<lparr>kind = ''OperationDefinition'', operation = Some ''mutation''\<rparr>"
  have s: "getMainDefinition (query (opWithQuery sampleSubscription)) = Inr ?sub"
    by (simp add: getMainDefinition_def opWithQuery_def sampleSubscription_def)
  have q: "getMainDefinition (query (opWithQuery sampleQuery)) = Inr ?qry"
    by (simp add: getMainDefinition_def opWithQuery_def sampleQuery_def)
  have m: "getMainDefinition (query (opWithQuery sampleMutation)) = Inr ?mut"
    by (simp add: getMainDefinition_def opWithQuery_def sampleMutation_def)
  have k: "kind ?sub = ''OperationDefinition''" "kind ?qry = ''OperationDefinition''"
    "kind ?mut = ''OperationDefinition''"
    by simp_all
  note r = subscription_routing [where gmd = getMainDefinition and K = "''@@controlEvents''"
      and cfg = "Url ''https://example/graphql''" and rf = "None :: unit option"]
  from r [OF s k(1)] r [OF q k(2)] r [OF m k(3)] s q m
  show ?thesis
    by (simp add: subscriptionLinksOf_Url resultsFetcherLinkOf_Url)
qed

text \<open>
  C10. For every operation whose main definition is not an operation definition node, a
  fragment definition for one, the test of the split is false and the operation goes to
  the results-fetcher link, whatever the node holds as operation type.
\<close>

theorem non_operation_definition_routing:
  assumes "gmd (query op) = Inr d" and "kind d \<noteq> ''OperationDefinition''"
  shows "isSubscription gmd op = Inr False
         \<and> routeOf (createSubscriptionHandshakeLink gmd K cfg rf) op
             = Inr (resultsFetcherLinkOf K cfg rf)"
  using assms by (simp add: factoryLinks_split isSubscription_def)

theorem non_operation_definition_routing_witness:
  "getMainDefinition (query (opWithQuery sampleFragment))
     = Inr \<lparr>kind = ''FragmentDefinition'', operation = None\<rparr>
   \<and> kind \<lparr>kind = ''FragmentDefinition'', operation = None\<rparr> \<noteq> ''OperationDefinition''
   \<and> isSubscription getMainDefinition (opWithQuery sampleFragment) = Inr False
   \<and> routeOf (createSubscriptionHandshakeLink getMainDefinition ''@@controlEvents''
                (Url ''https://example/graphql'') (Some ()) :: (unit, unit) ApolloLink)
        (opWithQuery sampleFragment)
       = Inr (SuppliedLink ())"
proof -
  let ?frag = "\<lparr>kind = ''FragmentDefinition'', operation = None\<rparr>"
  have f: "getMainDefinition (query (opWithQuery sampleFragment)) = Inr ?frag"
    by (simp add: getMainDefinition_def opWithQuery_def sampleFragment_def)
  have k: "kind ?frag \<noteq> ''OperationDefinition''"
    by simp
  from non_operation_definition_routing [where gmd = getMainDefinition
      and K = "''@@controlEvents''" and cfg = "Url ''https://example/graphql''"
      and rf = "Some ()", OF f k] f k
  show ?thesis
    by (simp add: resultsFetcherLinkOf_Url)
qed

text \<open>
  C6. Called with a bare URL, the factory builds as subscription sub-chain the composition
  of exactly three stages, in this order: the control-events link wrapped as the
  non-terminating stage \<open>controlMessages\<close>, the results-fetcher link wrapped as the
  non-terminating stage \<open>subsInfo\<close>, and the handshake link that reads the metadata under
  the key \<open>subsInfo\<close>.
\<close>

theorem bare_url_subscription_chain:
  "createSubscriptionHandshakeLink gmd K (Url u) rf
     = LinkSplit (isSubscription gmd)
         (LinkFrom
            [NonTerminatingLink ''controlMessages''
               (RequestHandlerLink (controlEventsRequest K)),
             NonTerminatingLink ''subsInfo'' (resultsFetcherLinkOf K (Url u) rf),
             SubscriptionHandshakeLink ''subsInfo''])
         (resultsFetcherLinkOf K (Url u) rf)
   \<and> subscriptionLinksOf K (Url u) rf
     = LinkFrom
         [NonTerminatingLink ''controlMessages''
            (RequestHandlerLink (controlEventsRequest K)),
          NonTerminatingLink ''subsInfo'' (resultsFetcherLinkOf K (Url u) rf),
          SubscriptionHandshakeLink ''subsInfo'']
   \<and> nonTerminatingNames (subscriptionLinksOf K (Url u) rf :: ('l, 's) ApolloLink)
     = [''controlMessages'', ''subsInfo'']"
  by (cases rf) (simp_all add: factoryLinks_split subscriptionLinksOf_Url resultsFetcherLinkOf_Url)

text \<open>
  C7. Called with a structured configuration, the factory builds as subscription path the
  real-time handshake link of the whole configuration and nothing else, and the link it
  returns has no non-terminating stage at all: neither \<open>controlMessages\<close> nor \<open>subsInfo\<close>
  is constructed.
\<close>

theorem structured_config_subscription_path:
  "subscriptionLinksOf K (Info cfg) rf = AppSyncRealTimeSubscriptionHandshakeLink cfg
   \<and> createSubscriptionHandshakeLink gmd K (Info cfg) rf
     = LinkSplit (isSubscription gmd) (AppSyncRealTimeSubscriptionHandshakeLink cfg)
         (resultsFetcherLinkOf K (Info cfg) rf)
   \<and> nonTerminatingNames (createSubscriptionHandshakeLink gmd K (Info cfg) rf) = []"
  by (cases rf) (simp_all add: factoryLinks_split subscriptionLinksOf_Info resultsFetcherLinkOf_Info)

text \<open>
  C8. When no results-fetcher link is passed, the factory builds an HTTP link on the
  configured URL, the string itself or the field \<open>url\<close> of the configuration, and every
  operation that is not a subscription goes to that HTTP link.
\<close>

theorem default_results_fetcher:
  "resultsFetcherLinkOf K (Url u) None = (HttpLink u :: ('l, 's) ApolloLink)
   \<and> resultsFetcherLinkOf K (Info cfg) None = (HttpLink (url cfg) :: ('l, 's) ApolloLink)
   \<and> (isSubscription gmd op = Inr False \<longrightarrow>
        routeOf (createSubscriptionHandshakeLink gmd K (Url u) None) op
          = Inr (HttpLink u :: ('l, 's) ApolloLink)
        \<and> routeOf (createSubscriptionHandshakeLink gmd K (Info cfg) None) op
            = Inr (HttpLink (url cfg) :: ('l, 's) ApolloLink))"
  by (simp add: factoryLinks_split resultsFetcherLinkOf_Url resultsFetcherLinkOf_Info)

theorem default_results_fetcher_witness:
  "isSubscription getMainDefinition (opWithQuery sampleQuery) = Inr False
   \<and> routeOf (createSubscriptionHandshakeLink getMainDefinition ''@@controlEvents''
                (Url ''https://example/graphql'') None)
        (opWithQuery sampleQuery)
       = Inr (HttpLink ''https://example/graphql'' :: (unit, unit) ApolloLink)
   \<and> routeOf (createSubscriptionHandshakeLink getMainDefinition ''@@controlEvents''
                (Info \<lparr>url = ''wss://example/realtime'', realtimeSettings = ()\<rparr>) None)
        (opWithQuery sampleQuery)
       = Inr (HttpLink ''wss://example/realtime'' :: (unit, unit) ApolloLink)"
proof -
  have q: "isSubscription getMainDefinition (opWithQuery sampleQuery) = Inr False"
    by (simp add: isSubscription_def getMainDefinition_def opWithQuery_def sampleQuery_def)
  from default_results_fetcher [where ?'l = unit and ?'s = unit and gmd = getMainDefinition
      and op = "opWithQuery sampleQuery" and K = "''@@controlEvents''"
      and u = "''https://example/graphql''"
      and cfg = "\<lparr>url = ''wss://example/realtime'', realtimeSettings = ()\<rparr>"] q
  show ?thesis by simp
qed

end
